theory Spec2Isabelle
  imports Main
begin

section \<open>The diff and kdiff subcommands of kubeapply\<close>

text \<open>
  The two command files of package \<open>subcmd\<close> are glue code: they call collaborators
  (configuration loading, the kubeconfig matcher, the cluster client, the structured
  diff engine, the JSON encoder) and decide, from what these return, what to call next,
  what to log and what to return. The model therefore has two parts:
  \<^item> a \<open>world\<close>: one function per collaborator, saying what it returns for given
    arguments. Every theorem quantifies over all worlds;
  \<^item> for each source function a HOL function that returns the Go return values
    together with the list of observable events (collaborator calls with their
    results, log records, prints) in the order in which the source performs them.
\<close>

subsection \<open>Errors and log records\<close>

text \<open>
  A Go \<open>error\<close>. \<open>ErrorsNew m\<close> is \<open>errors.New(m)\<close>; \<open>Errorf f as\<close> is
  \<open>fmt.Errorf(f, as...)\<close>, kept as format string and arguments; \<open>External\<close> stands
  for any error made elsewhere. A nil error is \<open>None\<close> of \<open>err option\<close>.
\<close>

datatype err =
    External string
  | ErrorsNew string
  | Errorf string "string list"

datatype level = LInfo | LError

datatype arg = AStr string | AErr err

subsection \<open>Configuration structures\<close>

text \<open>
  \<open>config.ClusterConfig\<close>, restricted to the fields the two commands read or write.
\<close>

record clusterConfig =
  Cluster :: string
  UID :: string
  ExpandedPath :: string
  KubeConfigPath :: string
  Subpaths :: "string list"
  ServerSideApply :: bool

text \<open>The command-line flags of \<open>diff\<close> (struct \<open>diffFlags\<close>).\<close>

record diffFlags =
  expand :: bool
  kubeConfig :: string
  simpleOutput :: bool
  subpaths :: "string list"

text \<open>
  The spinner handed to the cluster client: the index into \<open>spinner.CharSets\<close>, the
  delay in milliseconds, the two options and the prefix.
\<close>

record spinner =
  CharSet :: nat
  DelayMs :: nat
  WriterStderr :: bool
  HiddenCursor :: bool
  Prefix :: string

definition spinnerCharSet :: nat where
  "spinnerCharSet = 32"

definition spinnerDuration :: nat where
  "spinnerDuration = 200"

text \<open>\<open>cluster.ClusterClientConfig\<close>, with the fields that \<open>execDiff\<close> sets.\<close>

record clusterClientConfig =
  CheckApplyConsistency :: bool
  ClusterConfig :: clusterConfig
  Debug :: bool
  SpinnerObj :: spinner
  UseLocks :: bool

text \<open>
  Modelled from the spec: the declaration of \<open>diff.Results\<close> is not among the sources.
  The spec describes it as "a wrapping envelope used purely for serialization (a named
  field holding the sequence)"; the composite literal in \<open>kdiffRun\<close> names that field
  \<open>Results\<close>. A Go slice may be nil, which is \<open>None\<close> here. The element type
  \<open>diff.Result\<close> is a type parameter.
\<close>

record 'r diffResults =
  Results :: "'r list option"

subsection \<open>Collaborators\<close>

text \<open>
  The methods of the cluster client that \<open>execDiff\<close> calls. \<open>Diff\<close> and
  \<open>DiffStructured\<close> return a value and an error, and \<open>execDiff\<close> passes both on, so
  they return pairs here.
\<close>

record 'r kubeClient =
  GetNamespaceUID :: "string \<Rightarrow> err + string"
  Diff :: "string list \<Rightarrow> bool \<Rightarrow> string \<times> err option"
  DiffStructured :: "string list \<Rightarrow> bool \<Rightarrow> string \<Rightarrow> 'r list option \<times> err option"

text \<open>
  Everything else the commands call or read: functions of other packages, methods of
  the cluster configuration, the version constant and the process environment. A
  collaborator answers as a function of its arguments, and although Go hands it the
  cluster configuration by pointer, it is taken to leave the configuration as it is.
  Within one run of \<open>diffClusterPath\<close> or \<open>kdiffRun\<close> every collaborator is called at
  most once.
\<close>

record 'r world =
  LoadClusterConfig :: "string \<Rightarrow> string \<Rightarrow> err + clusterConfig"
  CheckVersion :: "clusterConfig \<Rightarrow> string \<Rightarrow> err option"
  Version :: string
  expandCluster :: "clusterConfig \<Rightarrow> bool \<Rightarrow> err option"
  DescriptiveName :: "clusterConfig \<Rightarrow> string"
  AbsSubpaths :: "clusterConfig \<Rightarrow> string list"
  DirExists :: "string \<Rightarrow> err + bool"
  Getenv :: "string \<Rightarrow> string"
  KubeconfigMatchesCluster :: "string \<Rightarrow> string \<Rightarrow> bool"
  NewKubeClusterClient :: "clusterClientConfig \<Rightarrow> err + 'r kubeClient"
  Glob :: "string \<Rightarrow> err + string list"
  DiffKube :: "string \<Rightarrow> string \<Rightarrow> bool \<Rightarrow> err + 'r list option"
  MarshalIndent :: "'r diffResults \<Rightarrow> string \<Rightarrow> string \<Rightarrow> err + string"

subsection \<open>Observable events\<close>

text \<open>
  One constructor per effect of the source; a call carries its arguments and what the
  collaborator returned. \<open>Log l f as\<close> is a log record of level \<open>l\<close> with format (or
  message) \<open>f\<close> and arguments \<open>as\<close>.
\<close>

datatype 'r event =
    Log level string "arg list"
  | CallLoadClusterConfig string string "err + clusterConfig"
  | CallCheckVersion clusterConfig string "err option"
  | CallExpandCluster clusterConfig bool "err option"
  | CallDirExists string "err + bool"
  | CallGetenv string string
  | CallKubeconfigMatchesCluster string string bool
  | CallNewKubeClusterClient clusterClientConfig "err option"
  | CallGetNamespaceUID string "err + string"
  | CallDiff "string list" bool "string \<times> err option"
  | CallDiffStructured "string list" bool string "'r list option \<times> err option"
  | CallClose
  | CallPrintFull "'r list option"
  | CallGlob string "err + string list"
  | CallParseBool string "err + bool"
  | CallDiffKube string string bool "err + 'r list option"
  | CallMarshalIndent "'r diffResults" string string "err + string"
  | Println string

text \<open>The events that invoke the underlying diff mechanism.\<close>

fun isDiffCall :: "'r event \<Rightarrow> bool" where
  "isDiffCall (CallDiff _ _ _) = True"
| "isDiffCall (CallDiffStructured _ _ _ _) = True"
| "isDiffCall _ = False"

text \<open>The events that look up the live identifier of a namespace.\<close>

fun isUIDLookup :: "'r event \<Rightarrow> bool" where
  "isUIDLookup (CallGetNamespaceUID _ _) = True"
| "isUIDLookup _ = False"

text \<open>The events that check the identity of the cluster, by name or by identifier.\<close>

fun isIdentityCheck :: "'r event \<Rightarrow> bool" where
  "isIdentityCheck (CallKubeconfigMatchesCluster _ _ _) = True"
| "isIdentityCheck (CallGetNamespaceUID _ _) = True"
| "isIdentityCheck _ = False"

text \<open>
  The events by which \<open>diffClusterPath\<close> shows the outcome of a diff: the full print
  of structured results, or the log record with the raw text.
\<close>

fun isResultOutput :: "'r event \<Rightarrow> bool" where
  "isResultOutput (CallPrintFull _) = True"
| "isResultOutput (Log LInfo f _) = (f = ''Raw diff results:\<newline>%s'')"
| "isResultOutput _ = False"

subsection \<open>execDiff\<close>

text \<open>
  Lines 213 to 228 of the diff command: the diff itself, raw in simple-output mode and
  structured otherwise. The first component is the triple that \<open>execDiff\<close> returns.
\<close>

definition execDiff_run ::
  "'r world \<Rightarrow> 'r kubeClient \<Rightarrow> clusterConfig \<Rightarrow> bool \<Rightarrow>
   ('r list option \<times> string \<times> err option) \<times> 'r event list" where
  "execDiff_run w kubeClient cfg simple =
     (if simple then
        (case Diff kubeClient (AbsSubpaths w cfg) (ServerSideApply cfg) of
           (rawResults, e) \<Rightarrow>
             ((None, rawResults, e),
              [CallDiff (AbsSubpaths w cfg) (ServerSideApply cfg) (rawResults, e)]))
      else
        (case DiffStructured kubeClient (AbsSubpaths w cfg) (ServerSideApply cfg) [] of
           (results, e) \<Rightarrow>
             ((results, [], e),
              [CallDiffStructured (AbsSubpaths w cfg) (ServerSideApply cfg) []
                 (results, e)])))"

text \<open>
  Lines 196 to 228: what \<open>execDiff\<close> does once it holds a client, up to the deferred
  \<open>Close\<close>.
\<close>

definition execDiff_checked ::
  "'r world \<Rightarrow> 'r kubeClient \<Rightarrow> clusterConfig \<Rightarrow> bool \<Rightarrow>
   ('r list option \<times> string \<times> err option) \<times> 'r event list" where
  "execDiff_checked w kubeClient cfg simple =
     (if UID cfg \<noteq> [] then
        (case GetNamespaceUID kubeClient ''kube-system'' of
           Inl e \<Rightarrow>
             ((None, [], Some e), [CallGetNamespaceUID ''kube-system'' (Inl e)])
         | Inr actualUID \<Rightarrow>
             (if UID cfg \<noteq> actualUID then
                ((None, [],
                  Some (Errorf
                    ''Kubeapply config does not match this cluster (wrong kube context?): kube-system uids do not match (%s!=%s)''
                    [UID cfg, actualUID])),
                 [CallGetNamespaceUID ''kube-system'' (Inr actualUID)])
              else
                (case execDiff_run w kubeClient cfg simple of
                   (r, t) \<Rightarrow> (r, CallGetNamespaceUID ''kube-system'' (Inr actualUID) # t))))
      else execDiff_run w kubeClient cfg simple)"

text \<open>
  The configuration that \<open>execDiff\<close> hands to \<open>cluster.NewKubeClusterClient\<close>
  (lines 172 to 189): the spinner it builds and the five fields it sets.
\<close>

definition execDiff_clientConfig :: "bool \<Rightarrow> clusterConfig \<Rightarrow> clusterClientConfig" where
  "execDiff_clientConfig dbg cfg =
     (let spinnerObj =
            \<lparr>CharSet = spinnerCharSet, DelayMs = spinnerDuration, WriterStderr = True,
             HiddenCursor = True, Prefix = ''Running: ''\<rparr>
      in \<lparr>CheckApplyConsistency = False, ClusterConfig = cfg, Debug = dbg,
          SpinnerObj = spinnerObj, UseLocks = False\<rparr>)"

definition execDiff ::
  "'r world \<Rightarrow> bool \<Rightarrow> clusterConfig \<Rightarrow> bool \<Rightarrow>
   ('r list option \<times> string \<times> err option) \<times> 'r event list" where
  "execDiff w dbg cfg simple =
     (let started = Log LInfo ''Generating diff against versions in Kube API'' [];
          ccfg = execDiff_clientConfig dbg cfg
      in case NewKubeClusterClient w ccfg of
           Inl e \<Rightarrow>
             ((None, [], Some e), [started, CallNewKubeClusterClient ccfg (Some e)])
         | Inr kubeClient \<Rightarrow>
             (case execDiff_checked w kubeClient cfg simple of
                (r, t) \<Rightarrow>
                  (r, [started, CallNewKubeClusterClient ccfg None] @ t @ [CallClose])))"

subsection \<open>diffClusterPath and diffRun\<close>

text \<open>
  Lines 126 to 133: the kubeconfig is the flag value, or else the value of
  \<open>KUBECONFIG\<close> in the environment, or else an error. The environment is only read
  when the flag is empty.
\<close>

definition resolveKubeConfig ::
  "'r world \<Rightarrow> diffFlags \<Rightarrow> (err + string) \<times> 'r event list" where
  "resolveKubeConfig w fl =
     (if kubeConfig fl = [] then
        (if Getenv w ''KUBECONFIG'' = [] then
           (Inl (ErrorsNew ''Must either set --kubeconfig flag or KUBECONFIG env variable''),
            [CallGetenv ''KUBECONFIG'' (Getenv w ''KUBECONFIG'')])
         else
           (Inr (Getenv w ''KUBECONFIG''),
            [CallGetenv ''KUBECONFIG'' (Getenv w ''KUBECONFIG'')]))
      else (Inr (kubeConfig fl), []))"

text \<open>
  Lines 135 to 162: from the check of the kubeconfig against the cluster name to the
  end of \<open>diffClusterPath\<close>.
\<close>

definition diffClusterPath_diff ::
  "'r world \<Rightarrow> diffFlags \<Rightarrow> bool \<Rightarrow> clusterConfig \<Rightarrow> string \<Rightarrow>
   err option \<times> 'r event list" where
  "diffClusterPath_diff w fl dbg cfg kc =
     (let matches = KubeconfigMatchesCluster w kc (Cluster cfg);
          checked = CallKubeconfigMatchesCluster kc (Cluster cfg) matches
      in if \<not> matches then
           (Some (Errorf ''Kubeconfig in %s does not appear to reference cluster %s''
                    [kc, Cluster cfg]),
            [checked])
         else
           (case execDiff w dbg (cfg\<lparr>KubeConfigPath := kc, Subpaths := subpaths fl\<rparr>)
                   (simpleOutput fl) of
              ((results, rawDiffs, Some e), t) \<Rightarrow>
                (Some e,
                 checked # t @
                 [Log LError ''Error running diff: %+v'' [AErr e], Log LInfo
                    ''Try re-running with --simple-output, then with --debug to see verbose output. Note that diffs will not work if target namespace(s) don't exist yet.''
                    []])
            | ((results, rawDiffs, None), t) \<Rightarrow>
                (None,
                 checked # t @
                 [if results \<noteq> None then CallPrintFull results
                  else Log LInfo ''Raw diff results:\<newline>%s'' [AStr rawDiffs]])))"

text \<open>
  Lines 114 to 162: from the log record that names the cluster, through the check of
  the expanded directory and the resolution of the kubeconfig.
\<close>

definition diffClusterPath_expanded ::
  "'r world \<Rightarrow> diffFlags \<Rightarrow> bool \<Rightarrow> clusterConfig \<Rightarrow> err option \<times> 'r event list" where
  "diffClusterPath_expanded w fl dbg cfg =
     (let diffing = Log LInfo ''Diffing cluster %s'' [AStr (DescriptiveName w cfg)];
          exists = CallDirExists (ExpandedPath cfg) (DirExists w (ExpandedPath cfg))
      in case DirExists w (ExpandedPath cfg) of
           Inl e \<Rightarrow> (Some e, [diffing, exists])
         | Inr ok \<Rightarrow>
             (if \<not> ok then
                (Some (Errorf ''Expanded path %s does not exist'' [ExpandedPath cfg]),
                 [diffing, exists])
              else
                (case resolveKubeConfig w fl of
                   (Inl e, t) \<Rightarrow> (Some e, [diffing, exists] @ t)
                 | (Inr kc, t) \<Rightarrow>
                     (case diffClusterPath_diff w fl dbg cfg kc of
                        (r, t') \<Rightarrow> (r, [diffing, exists] @ t @ t')))))"

definition diffClusterPath ::
  "'r world \<Rightarrow> diffFlags \<Rightarrow> bool \<Rightarrow> string \<Rightarrow> err option \<times> 'r event list" where
  "diffClusterPath w fl dbg path =
     (case LoadClusterConfig w path [] of
        Inl e \<Rightarrow> (Some e, [CallLoadClusterConfig path [] (Inl e)])
      | Inr cfg \<Rightarrow>
          (let loaded = CallLoadClusterConfig path [] (Inr cfg);
               versioned = CallCheckVersion cfg (Version w) (CheckVersion w cfg (Version w))
           in case CheckVersion w cfg (Version w) of
                Some e \<Rightarrow> (Some e, [loaded, versioned])
              | None \<Rightarrow>
                  (if expand fl then
                     (case expandCluster w cfg False of
                        Some e \<Rightarrow>
                          (Some e, [loaded, versioned, CallExpandCluster cfg False (Some e)])
                      | None \<Rightarrow>
                          (case diffClusterPath_expanded w fl dbg cfg of
                             (r, t) \<Rightarrow>
                               (r, [loaded, versioned, CallExpandCluster cfg False None] @ t)))
                   else
                     (case diffClusterPath_expanded w fl dbg cfg of
                        (r, t) \<Rightarrow> (r, [loaded, versioned] @ t)))))"

text \<open>
  The inner loop of \<open>diffRun\<close>, over the paths that one argument expands to: it stops
  at the first path whose diff fails.
\<close>

fun diffRun_paths ::
  "'r world \<Rightarrow> diffFlags \<Rightarrow> bool \<Rightarrow> string list \<Rightarrow> err option \<times> 'r event list" where
  "diffRun_paths w fl dbg [] = (None, [])"
| "diffRun_paths w fl dbg (path # paths) =
     (case diffClusterPath w fl dbg path of
        (Some e, t) \<Rightarrow> (Some e, t)
      | (None, t) \<Rightarrow>
          (case diffRun_paths w fl dbg paths of (r, t') \<Rightarrow> (r, t @ t')))"

text \<open>The outer loop of \<open>diffRun\<close>, over the arguments of the command.\<close>

fun diffRun :: "'r world \<Rightarrow> diffFlags \<Rightarrow> bool \<Rightarrow> string list \<Rightarrow> err option \<times> 'r event list" where
  "diffRun w fl dbg [] = (None, [])"
| "diffRun w fl dbg (a # as) =
     (case Glob w a of
        Inl e \<Rightarrow> (Some e, [CallGlob a (Inl e)])
      | Inr paths \<Rightarrow>
          (case diffRun_paths w fl dbg paths of
             (Some e, t) \<Rightarrow> (Some e, CallGlob a (Inr paths) # t)
           | (None, t) \<Rightarrow>
               (case diffRun w fl dbg as of
                  (r, t') \<Rightarrow> (r, CallGlob a (Inr paths) # t @ t'))))"

subsection \<open>kdiffRun\<close>

text \<open>
  \<open>strconv.ParseBool\<close> of the Go standard library: it accepts the twelve spellings
  below and fails with a syntax error on any other string.
\<close>

definition ParseBool :: "string \<Rightarrow> err + bool" where
  "ParseBool s =
     (if s \<in> set [''1'', ''t'', ''T'', ''TRUE'', ''true'', ''True''] then Inr True
      else if s \<in> set [''0'', ''f'', ''F'', ''FALSE'', ''false'', ''False''] then Inr False
      else Inl (Errorf ''strconv.ParseBool: parsing %q: invalid syntax'' [s]))"

text \<open>
  Lines 45 to 60 of the kdiff command: the structured diff of the two trees, wrapped
  and printed as JSON.
\<close>

definition kdiffRun_diff ::
  "'r world \<Rightarrow> string list \<Rightarrow> bool \<Rightarrow> err option \<times> 'r event list" where
  "kdiffRun_diff w args shortDiff =
     (let called = CallDiffKube (args ! 0) (args ! 1) shortDiff
                     (DiffKube w (args ! 0) (args ! 1) shortDiff)
      in case DiffKube w (args ! 0) (args ! 1) shortDiff of
           Inl e \<Rightarrow> (Some e, [called])
         | Inr results \<Rightarrow>
             (let wrappedResults = \<lparr>Results = results\<rparr>;
                  marshalled = CallMarshalIndent wrappedResults [] ''  ''
                                 (MarshalIndent w wrappedResults [] ''  '')
              in case MarshalIndent w wrappedResults [] ''  '' of
                   Inl e \<Rightarrow> (Some e, [called, marshalled])
                 | Inr jsonBytes \<Rightarrow> (None, [called, marshalled, Println jsonBytes])))"

definition kdiffRun :: "'r world \<Rightarrow> string list \<Rightarrow> err option \<times> 'r event list" where
  "kdiffRun w args =
     (if length args \<noteq> 2 then (Some (ErrorsNew ''Expected exactly two arguments''), [])
      else if length args = 3 then
        (case ParseBool (args ! 2) of
           Inl e \<Rightarrow> (Some e, [CallParseBool (args ! 2) (Inl e)])
         | Inr shortDiff \<Rightarrow>
             (case kdiffRun_diff w args shortDiff of
                (r, t) \<Rightarrow> (r, CallParseBool (args ! 2) (Inr shortDiff) # t)))
      else kdiffRun_diff w args False)"

subsection \<open>Locking\<close>

text \<open>
  Modelled from the spec: what the cluster client does with \<open>UseLocks\<close> is in package
  \<open>cluster\<close>, which is not among the sources. The spec's state machine has a state
  "\<open>Locking\<close> (only entered if concurrency protection is enabled for this target):
  acquires an exclusive lock keyed by cluster identity; blocks the calling flow until
  acquired or a caller-supplied deadline elapses, in which case it fails with
  LockTimeout". The second argument says whether the lock is acquired before the
  deadline.
\<close>

datatype lockOutcome = LockNotEntered | LockAcquired | LockTimeout

definition Locking :: "bool \<Rightarrow> bool \<Rightarrow> lockOutcome" where
  "Locking useLocks acquiredInTime =
     (if useLocks then (if acquiredInTime then LockAcquired else LockTimeout)
      else LockNotEntered)"

text \<open>Whether an event constructs a cluster client that asks for locking.\<close>

fun requestsLock :: "'r event \<Rightarrow> bool" where
  "requestsLock (CallNewKubeClusterClient ccfg _) = UseLocks ccfg"
| "requestsLock _ = False"

subsection \<open>A sample cluster\<close>

text \<open>
  A concrete world on which the theorems below are instantiated: one cluster
  configuration \<open>prod-east.yaml\<close> with a given recorded identifier, a kubeconfig whose
  context references the cluster \<open>context\<close>, a given value of \<open>KUBECONFIG\<close>, a given
  outcome of the client construction and a given result of the structured diff of two
  trees. Results are strings here.
\<close>

definition demoConfig :: "string \<Rightarrow> clusterConfig" where
  "demoConfig recorded =
     \<lparr>Cluster = ''prod-east'', UID = recorded, ExpandedPath = ''expanded/prod-east'',
      KubeConfigPath = [], Subpaths = [], ServerSideApply = False\<rparr>"

definition demoClient :: "string \<Rightarrow> err option \<Rightarrow> string kubeClient" where
  "demoClient live failure =
     \<lparr>GetNamespaceUID =
        (\<lambda>ns. if ns = ''kube-system'' then Inr live
              else Inl (External ''namespace not found'')),
      Diff = (\<lambda>paths ssa. (''-port: 80 +port: 8080'', failure)),
      DiffStructured = (\<lambda>paths ssa opt. (Some [''Service web''], failure))\<rparr>"

definition demoWorld ::
  "string \<Rightarrow> string \<Rightarrow> string \<Rightarrow> (err + string kubeClient) \<Rightarrow> string list option \<Rightarrow>
   string world" where
  "demoWorld recorded context env client records =
     \<lparr>LoadClusterConfig =
        (\<lambda>path override. if path = ''prod-east.yaml'' then Inr (demoConfig recorded)
                         else Inl (External ''no such cluster config'')),
      CheckVersion = (\<lambda>cfg v. None),
      Version = ''1.0.0'',
      expandCluster = (\<lambda>cfg b. None),
      DescriptiveName = Cluster,
      AbsSubpaths = (\<lambda>cfg. [ExpandedPath cfg]),
      DirExists = (\<lambda>dir. Inr True),
      Getenv = (\<lambda>name. if name = ''KUBECONFIG'' then env else []),
      KubeconfigMatchesCluster = (\<lambda>kc cl. cl = context),
      NewKubeClusterClient = (\<lambda>ccfg. client),
      Glob = (\<lambda>pattern. Inr [pattern]),
      DiffKube = (\<lambda>old new short. Inr records),
      MarshalIndent =
        (\<lambda>wrapped prefix indent.
           Inr (''{ results: '' @
                (case Results wrapped of None \<Rightarrow> ''null''
                 | Some rs \<Rightarrow> ''['' @ concat rs @ '']'') @ '' }''))\<rparr>"

definition demoFlags :: "string \<Rightarrow> bool \<Rightarrow> diffFlags" where
  "demoFlags kc simple =
     \<lparr>expand = False, kubeConfig = kc, simpleOutput = simple, subpaths = []\<rparr>"

text \<open>
  Five situations of the sample cluster: the cluster cannot be reached; the kubeconfig
  references \<open>prod-west\<close> and no identifier is recorded; the kubeconfig names the right
  cluster but the live identifier is \<open>xyz-789\<close>; everything is in order, with
  \<open>KUBECONFIG\<close> set and no difference between the two trees; and the diff itself fails.
\<close>

definition unreachable :: "string world" where
  "unreachable =
     demoWorld ''abc-123'' ''prod-east'' [] (Inl (External ''cluster unreachable'')) None"

definition wrongContext :: "string world" where
  "wrongContext = demoWorld [] ''prod-west'' [] (Inr (demoClient ''xyz-789'' None)) None"

definition otherCluster :: "string world" where
  "otherCluster =
     demoWorld ''abc-123'' ''prod-east'' [] (Inr (demoClient ''xyz-789'' None)) None"

definition healthy :: "string world" where
  "healthy =
     demoWorld ''abc-123'' ''prod-east'' ''env.conf'' (Inr (demoClient ''abc-123'' None))
       (Some [])"

definition missingNamespace :: "string world" where
  "missingNamespace =
     demoWorld ''abc-123'' ''prod-east'' []
       (Inr (demoClient ''abc-123'' (Some (External ''namespace web not found'')))) None"

section \<open>The runs of the diff command\<close>

text \<open>
  Each function is characterised by the list of its runs: one case per way through the
  source, with the conditions under which it is taken, the return value and the events.
  The theorems of the next section are proved by going through these cases.
\<close>

lemma execDiff_runE:
  assumes "execDiff_run w c cfg simple = (r, t)"
  obtains (Raw) raw e where "simple"
      "Diff c (AbsSubpaths w cfg) (ServerSideApply cfg) = (raw, e)"
      "r = (None, raw, e)"
      "t = [CallDiff (AbsSubpaths w cfg) (ServerSideApply cfg) (raw, e)]"
    | (Structured) results e where "\<not> simple"
      "DiffStructured c (AbsSubpaths w cfg) (ServerSideApply cfg) [] = (results, e)"
      "r = (results, [], e)"
      "t = [CallDiffStructured (AbsSubpaths w cfg) (ServerSideApply cfg) [] (results, e)]"
  using assms by (auto simp: execDiff_run_def split: prod.splits if_splits)

lemma execDiff_checkedE:
  assumes "execDiff_checked w c cfg simple = (r, t)"
  obtains (LookupFailed) e where "UID cfg \<noteq> []"
      "GetNamespaceUID c ''kube-system'' = Inl e"
      "r = (None, [], Some e)"
      "t = [CallGetNamespaceUID ''kube-system'' (Inl e)]"
    | (Mismatch) live where "UID cfg \<noteq> []"
      "GetNamespaceUID c ''kube-system'' = Inr live" "live \<noteq> UID cfg"
      "r = (None, [], Some (Errorf ''Kubeapply config does not match this cluster (wrong kube context?): kube-system uids do not match (%s!=%s)'' [UID cfg, live]))"
      "t = [CallGetNamespaceUID ''kube-system'' (Inr live)]"
    | (Verified) t' where "UID cfg \<noteq> []"
      "GetNamespaceUID c ''kube-system'' = Inr (UID cfg)"
      "execDiff_run w c cfg simple = (r, t')"
      "t = CallGetNamespaceUID ''kube-system'' (Inr (UID cfg)) # t'"
    | (Unrecorded) "UID cfg = []" "execDiff_run w c cfg simple = (r, t)"
  using assms by (auto simp: execDiff_checked_def split: prod.splits if_splits sum.splits)

lemma execDiffE:
  assumes "execDiff w dbg cfg simple = (r, t)"
  obtains (NoClient) e where
      "NewKubeClusterClient w (execDiff_clientConfig dbg cfg) = Inl e"
      "r = (None, [], Some e)"
      "t = [Log LInfo ''Generating diff against versions in Kube API'' [],
            CallNewKubeClusterClient (execDiff_clientConfig dbg cfg) (Some e)]"
    | (Client) c t' where
      "NewKubeClusterClient w (execDiff_clientConfig dbg cfg) = Inr c"
      "execDiff_checked w c cfg simple = (r, t')"
      "t = Log LInfo ''Generating diff against versions in Kube API'' [] #
           CallNewKubeClusterClient (execDiff_clientConfig dbg cfg) None # t' @ [CallClose]"
  using assms by (auto simp: execDiff_def Let_def split: prod.splits sum.splits)

lemma diffClusterPath_diffE:
  assumes "diffClusterPath_diff w fl dbg cfg kc = (r, t)"
  obtains (NameMismatch) "\<not> KubeconfigMatchesCluster w kc (Cluster cfg)"
      "r = Some (Errorf ''Kubeconfig in %s does not appear to reference cluster %s'' [kc, Cluster cfg])"
      "t = [CallKubeconfigMatchesCluster kc (Cluster cfg) False]"
    | (DiffFailed) results rawDiffs e t' where "KubeconfigMatchesCluster w kc (Cluster cfg)"
      "execDiff w dbg (cfg\<lparr>KubeConfigPath := kc, Subpaths := subpaths fl\<rparr>) (simpleOutput fl) =
         ((results, rawDiffs, Some e), t')"
      "r = Some e"
      "t = CallKubeconfigMatchesCluster kc (Cluster cfg) True # t' @
           [Log LError ''Error running diff: %+v'' [AErr e],
            Log LInfo ''Try re-running with --simple-output, then with --debug to see verbose output. Note that diffs will not work if target namespace(s) don't exist yet.'' []]"
    | (Diffed) results rawDiffs t' where "KubeconfigMatchesCluster w kc (Cluster cfg)"
      "execDiff w dbg (cfg\<lparr>KubeConfigPath := kc, Subpaths := subpaths fl\<rparr>) (simpleOutput fl) =
         ((results, rawDiffs, None), t')"
      "r = None"
      "t = CallKubeconfigMatchesCluster kc (Cluster cfg) True # t' @
           [if results \<noteq> None then CallPrintFull results
            else Log LInfo ''Raw diff results:\<newline>%s'' [AStr rawDiffs]]"
  using assms by (auto simp: diffClusterPath_diff_def Let_def split: prod.splits option.splits if_splits)

lemma diffClusterPath_expandedE:
  assumes "diffClusterPath_expanded w fl dbg cfg = (r, t)"
  obtains (DirFailed) e where "DirExists w (ExpandedPath cfg) = Inl e" "r = Some e"
      "t = [Log LInfo ''Diffing cluster %s'' [AStr (DescriptiveName w cfg)],
            CallDirExists (ExpandedPath cfg) (Inl e)]"
    | (DirMissing) "DirExists w (ExpandedPath cfg) = Inr False"
      "r = Some (Errorf ''Expanded path %s does not exist'' [ExpandedPath cfg])"
      "t = [Log LInfo ''Diffing cluster %s'' [AStr (DescriptiveName w cfg)],
            CallDirExists (ExpandedPath cfg) (Inr False)]"
    | (NoKubeconfig) "DirExists w (ExpandedPath cfg) = Inr True"
      "kubeConfig fl = []" "Getenv w ''KUBECONFIG'' = []"
      "r = Some (ErrorsNew ''Must either set --kubeconfig flag or KUBECONFIG env variable'')"
      "t = [Log LInfo ''Diffing cluster %s'' [AStr (DescriptiveName w cfg)],
            CallDirExists (ExpandedPath cfg) (Inr True), CallGetenv ''KUBECONFIG'' []]"
    | (FromEnv) t' where "DirExists w (ExpandedPath cfg) = Inr True"
      "kubeConfig fl = []" "Getenv w ''KUBECONFIG'' \<noteq> []"
      "diffClusterPath_diff w fl dbg cfg (Getenv w ''KUBECONFIG'') = (r, t')"
      "t = Log LInfo ''Diffing cluster %s'' [AStr (DescriptiveName w cfg)] #
           CallDirExists (ExpandedPath cfg) (Inr True) #
           CallGetenv ''KUBECONFIG'' (Getenv w ''KUBECONFIG'') # t'"
    | (FromFlag) t' where "DirExists w (ExpandedPath cfg) = Inr True"
      "kubeConfig fl \<noteq> []"
      "diffClusterPath_diff w fl dbg cfg (kubeConfig fl) = (r, t')"
      "t = Log LInfo ''Diffing cluster %s'' [AStr (DescriptiveName w cfg)] #
           CallDirExists (ExpandedPath cfg) (Inr True) # t'"
  using assms
  by (auto simp: diffClusterPath_expanded_def resolveKubeConfig_def Let_def
           split: prod.splits sum.splits if_splits)

lemma diffClusterPathE:
  assumes "diffClusterPath w fl dbg path = (r, t)"
  obtains (LoadFailed) e where "LoadClusterConfig w path [] = Inl e" "r = Some e"
      "t = [CallLoadClusterConfig path [] (Inl e)]"
    | (VersionFailed) cfg e where "LoadClusterConfig w path [] = Inr cfg"
      "CheckVersion w cfg (Version w) = Some e" "r = Some e"
      "t = [CallLoadClusterConfig path [] (Inr cfg), CallCheckVersion cfg (Version w) (Some e)]"
    | (ExpandFailed) cfg e where "LoadClusterConfig w path [] = Inr cfg"
      "CheckVersion w cfg (Version w) = None" "expand fl"
      "expandCluster w cfg False = Some e" "r = Some e"
      "t = [CallLoadClusterConfig path [] (Inr cfg), CallCheckVersion cfg (Version w) None,
            CallExpandCluster cfg False (Some e)]"
    | (Expanded) cfg t' where "LoadClusterConfig w path [] = Inr cfg"
      "CheckVersion w cfg (Version w) = None" "expand fl"
      "expandCluster w cfg False = None"
      "diffClusterPath_expanded w fl dbg cfg = (r, t')"
      "t = CallLoadClusterConfig path [] (Inr cfg) # CallCheckVersion cfg (Version w) None #
           CallExpandCluster cfg False None # t'"
    | (AsIs) cfg t' where "LoadClusterConfig w path [] = Inr cfg"
      "CheckVersion w cfg (Version w) = None" "\<not> expand fl"
      "diffClusterPath_expanded w fl dbg cfg = (r, t')"
      "t = CallLoadClusterConfig path [] (Inr cfg) # CallCheckVersion cfg (Version w) None # t'"
proof (cases "LoadClusterConfig w path []")
  case (Inl e)
  show ?thesis
    by (rule LoadFailed [OF Inl])
       (use assms Inl in \<open>auto simp: diffClusterPath_def\<close>)
next
  case load: (Inr cfg)
  show ?thesis
  proof (cases "CheckVersion w cfg (Version w)")
    case (Some e)
    show ?thesis
      by (rule VersionFailed [OF load Some])
         (use assms load Some in \<open>auto simp: diffClusterPath_def\<close>)
  next
    case version: None
    show ?thesis
    proof (cases "expand fl")
      case False
      obtain t' where t': "diffClusterPath_expanded w fl dbg cfg = (r, t')"
        "t = CallLoadClusterConfig path [] (Inr cfg) # CallCheckVersion cfg (Version w) None # t'"
        using assms load version False
        by (auto simp: diffClusterPath_def split: prod.splits)
      show ?thesis
        by (rule AsIs [OF load version False t'])
    next
      case True
      show ?thesis
      proof (cases "expandCluster w cfg False")
        case (Some e)
        show ?thesis
          by (rule ExpandFailed [OF load version True Some])
             (use assms load version True Some in \<open>auto simp: diffClusterPath_def\<close>)
      next
        case None
        obtain t' where t': "diffClusterPath_expanded w fl dbg cfg = (r, t')"
          "t = CallLoadClusterConfig path [] (Inr cfg) # CallCheckVersion cfg (Version w) None #
               CallExpandCluster cfg False None # t'"
          using assms load version True None
          by (auto simp: diffClusterPath_def split: prod.splits)
        show ?thesis
          by (rule Expanded [OF load version True None t'])
      qed
    qed
  qed
qed


lemma execDiff_paths:
  assumes "execDiff w dbg cfg simple = (r, t)"
  obtains (NoClient) e where
      "NewKubeClusterClient w (execDiff_clientConfig dbg cfg) = Inl e"
      "r = (None, [], Some e)"
      "t = [Log LInfo ''Generating diff against versions in Kube API'' [],
            CallNewKubeClusterClient (execDiff_clientConfig dbg cfg) (Some e)]"
    | (LookupFailed) c e where
      "NewKubeClusterClient w (execDiff_clientConfig dbg cfg) = Inr c"
      "UID cfg \<noteq> []" "GetNamespaceUID c ''kube-system'' = Inl e"
      "r = (None, [], Some e)"
      "t = [Log LInfo ''Generating diff against versions in Kube API'' [],
            CallNewKubeClusterClient (execDiff_clientConfig dbg cfg) None,
            CallGetNamespaceUID ''kube-system'' (Inl e), CallClose]"
    | (Mismatch) c live where
      "NewKubeClusterClient w (execDiff_clientConfig dbg cfg) = Inr c"
      "UID cfg \<noteq> []" "GetNamespaceUID c ''kube-system'' = Inr live" "live \<noteq> UID cfg"
      "r = (None, [], Some (Errorf ''Kubeapply config does not match this cluster (wrong kube context?): kube-system uids do not match (%s!=%s)'' [UID cfg, live]))"
      "t = [Log LInfo ''Generating diff against versions in Kube API'' [],
            CallNewKubeClusterClient (execDiff_clientConfig dbg cfg) None,
            CallGetNamespaceUID ''kube-system'' (Inr live), CallClose]"
    | (Raw) c raw e where
      "NewKubeClusterClient w (execDiff_clientConfig dbg cfg) = Inr c"
      "UID cfg \<noteq> [] \<longrightarrow> GetNamespaceUID c ''kube-system'' = Inr (UID cfg)"
      "simple" "Diff c (AbsSubpaths w cfg) (ServerSideApply cfg) = (raw, e)"
      "r = (None, raw, e)"
      "t = Log LInfo ''Generating diff against versions in Kube API'' [] #
           CallNewKubeClusterClient (execDiff_clientConfig dbg cfg) None #
           (if UID cfg \<noteq> [] then [CallGetNamespaceUID ''kube-system'' (Inr (UID cfg))] else []) @
           [CallDiff (AbsSubpaths w cfg) (ServerSideApply cfg) (raw, e), CallClose]"
    | (Structured) c results e where
      "NewKubeClusterClient w (execDiff_clientConfig dbg cfg) = Inr c"
      "UID cfg \<noteq> [] \<longrightarrow> GetNamespaceUID c ''kube-system'' = Inr (UID cfg)"
      "\<not> simple"
      "DiffStructured c (AbsSubpaths w cfg) (ServerSideApply cfg) [] = (results, e)"
      "r = (results, [], e)"
      "t = Log LInfo ''Generating diff against versions in Kube API'' [] #
           CallNewKubeClusterClient (execDiff_clientConfig dbg cfg) None #
           (if UID cfg \<noteq> [] then [CallGetNamespaceUID ''kube-system'' (Inr (UID cfg))] else []) @
           [CallDiffStructured (AbsSubpaths w cfg) (ServerSideApply cfg) [] (results, e),
            CallClose]"
  using assms by (auto elim!: execDiffE execDiff_checkedE execDiff_runE)


lemma diffClusterPath_checkedE:
  assumes "diffClusterPath_expanded w fl dbg cfg = (r, t)"
  obtains (DirFailed) e where "DirExists w (ExpandedPath cfg) = Inl e" "r = Some e"
      "t = [Log LInfo ''Diffing cluster %s'' [AStr (DescriptiveName w cfg)], CallDirExists (ExpandedPath cfg) (Inl e)]"
    | (DirMissing) "DirExists w (ExpandedPath cfg) = Inr False"
      "r = Some (Errorf ''Expanded path %s does not exist'' [ExpandedPath cfg])"
      "t = [Log LInfo ''Diffing cluster %s'' [AStr (DescriptiveName w cfg)], CallDirExists (ExpandedPath cfg) (Inr False)]"
    | (NoKubeconfig) "DirExists w (ExpandedPath cfg) = Inr True"
      "kubeConfig fl = []" "Getenv w ''KUBECONFIG'' = []"
      "r = Some (ErrorsNew ''Must either set --kubeconfig flag or KUBECONFIG env variable'')"
      "t = [Log LInfo ''Diffing cluster %s'' [AStr (DescriptiveName w cfg)], CallDirExists (ExpandedPath cfg) (Inr True), CallGetenv ''KUBECONFIG'' []]"
    | (Resolved) kc t' where "DirExists w (ExpandedPath cfg) = Inr True"
      "kc = (if kubeConfig fl = [] then Getenv w ''KUBECONFIG'' else kubeConfig fl)"
      "kc \<noteq> []"
      "diffClusterPath_diff w fl dbg cfg kc = (r, t')"
      "t = Log LInfo ''Diffing cluster %s'' [AStr (DescriptiveName w cfg)] # CallDirExists (ExpandedPath cfg) (Inr True) #
           (if kubeConfig fl = [] then [CallGetenv ''KUBECONFIG'' kc] else []) @ t'"
  using assms by (auto elim!: diffClusterPath_expandedE)

lemma diffClusterPath_preludeE:
  assumes "diffClusterPath w fl dbg path = (r, t)"
  obtains (LoadFailed) e where "LoadClusterConfig w path [] = Inl e" "r = Some e"
      "t = [CallLoadClusterConfig path [] (Inl e)]"
    | (VersionFailed) cfg e where "LoadClusterConfig w path [] = Inr cfg"
      "CheckVersion w cfg (Version w) = Some e" "r = Some e"
      "t = [CallLoadClusterConfig path [] (Inr cfg), CallCheckVersion cfg (Version w) (Some e)]"
    | (ExpandFailed) cfg e where "LoadClusterConfig w path [] = Inr cfg"
      "CheckVersion w cfg (Version w) = None" "expand fl"
      "expandCluster w cfg False = Some e" "r = Some e"
      "t = [CallLoadClusterConfig path [] (Inr cfg), CallCheckVersion cfg (Version w) None,
            CallExpandCluster cfg False (Some e)]"
    | (Prepared) cfg t' where "LoadClusterConfig w path [] = Inr cfg"
      "CheckVersion w cfg (Version w) = None"
      "expand fl \<longrightarrow> expandCluster w cfg False = None"
      "diffClusterPath_expanded w fl dbg cfg = (r, t')"
      "t = CallLoadClusterConfig path [] (Inr cfg) # CallCheckVersion cfg (Version w) None #
           (if expand fl then [CallExpandCluster cfg False None] else []) @ t'"
  using assms by (auto elim!: diffClusterPathE)


lemma diffClusterPath_paths:
  assumes "diffClusterPath w fl dbg path = (r, t)"
  obtains (LoadFailed) e where "LoadClusterConfig w path [] = Inl e" "r = Some e"
      "t = [CallLoadClusterConfig path [] (Inl e)]"
    | (VersionFailed) cfg e where "LoadClusterConfig w path [] = Inr cfg"
      "CheckVersion w cfg (Version w) = Some e" "r = Some e"
      "t = [CallLoadClusterConfig path [] (Inr cfg), CallCheckVersion cfg (Version w) (Some e)]"
    | (ExpandFailed) cfg e where "LoadClusterConfig w path [] = Inr cfg"
      "CheckVersion w cfg (Version w) = None" "expand fl"
      "expandCluster w cfg False = Some e" "r = Some e"
      "t = [CallLoadClusterConfig path [] (Inr cfg), CallCheckVersion cfg (Version w) None,
            CallExpandCluster cfg False (Some e)]"
    | (DirFailed) cfg e where "LoadClusterConfig w path [] = Inr cfg"
      "CheckVersion w cfg (Version w) = None"
      "expand fl \<longrightarrow> expandCluster w cfg False = None"
      "DirExists w (ExpandedPath cfg) = Inl e" "r = Some e"
      "t = CallLoadClusterConfig path [] (Inr cfg) # CallCheckVersion cfg (Version w) None #
           (if expand fl then [CallExpandCluster cfg False None] else []) @
           [Log LInfo ''Diffing cluster %s'' [AStr (DescriptiveName w cfg)], CallDirExists (ExpandedPath cfg) (Inl e)]"
    | (DirMissing) cfg where "LoadClusterConfig w path [] = Inr cfg"
      "CheckVersion w cfg (Version w) = None"
      "expand fl \<longrightarrow> expandCluster w cfg False = None"
      "DirExists w (ExpandedPath cfg) = Inr False"
      "r = Some (Errorf ''Expanded path %s does not exist'' [ExpandedPath cfg])"
      "t = CallLoadClusterConfig path [] (Inr cfg) # CallCheckVersion cfg (Version w) None #
           (if expand fl then [CallExpandCluster cfg False None] else []) @
           [Log LInfo ''Diffing cluster %s'' [AStr (DescriptiveName w cfg)], CallDirExists (ExpandedPath cfg) (Inr False)]"
    | (NoKubeconfig) cfg where "LoadClusterConfig w path [] = Inr cfg"
      "CheckVersion w cfg (Version w) = None"
      "expand fl \<longrightarrow> expandCluster w cfg False = None"
      "DirExists w (ExpandedPath cfg) = Inr True"
      "kubeConfig fl = []" "Getenv w ''KUBECONFIG'' = []"
      "r = Some (ErrorsNew ''Must either set --kubeconfig flag or KUBECONFIG env variable'')"
      "t = CallLoadClusterConfig path [] (Inr cfg) # CallCheckVersion cfg (Version w) None #
           (if expand fl then [CallExpandCluster cfg False None] else []) @
           [Log LInfo ''Diffing cluster %s'' [AStr (DescriptiveName w cfg)], CallDirExists (ExpandedPath cfg) (Inr True), CallGetenv ''KUBECONFIG'' []]"
    | (NameMismatch) cfg kc where "LoadClusterConfig w path [] = Inr cfg"
      "CheckVersion w cfg (Version w) = None"
      "expand fl \<longrightarrow> expandCluster w cfg False = None"
      "DirExists w (ExpandedPath cfg) = Inr True"
      "kc = (if kubeConfig fl = [] then Getenv w ''KUBECONFIG'' else kubeConfig fl)"
      "kc \<noteq> []"
      "\<not> KubeconfigMatchesCluster w kc (Cluster cfg)"
      "r = Some (Errorf ''Kubeconfig in %s does not appear to reference cluster %s'' [kc, Cluster cfg])"
      "t = CallLoadClusterConfig path [] (Inr cfg) # CallCheckVersion cfg (Version w) None #
           (if expand fl then [CallExpandCluster cfg False None] else []) @
           Log LInfo ''Diffing cluster %s'' [AStr (DescriptiveName w cfg)] # CallDirExists (ExpandedPath cfg) (Inr True) #
           (if kubeConfig fl = [] then [CallGetenv ''KUBECONFIG'' kc] else []) @
           [CallKubeconfigMatchesCluster kc (Cluster cfg) False]"
    | (DiffFailed) cfg kc results rawDiffs e t' where "LoadClusterConfig w path [] = Inr cfg"
      "CheckVersion w cfg (Version w) = None"
      "expand fl \<longrightarrow> expandCluster w cfg False = None"
      "DirExists w (ExpandedPath cfg) = Inr True"
      "kc = (if kubeConfig fl = [] then Getenv w ''KUBECONFIG'' else kubeConfig fl)"
      "kc \<noteq> []"
      "KubeconfigMatchesCluster w kc (Cluster cfg)"
      "execDiff w dbg (cfg\<lparr>KubeConfigPath := kc, Subpaths := subpaths fl\<rparr>) (simpleOutput fl) =
         ((results, rawDiffs, Some e), t')"
      "r = Some e"
      "t = CallLoadClusterConfig path [] (Inr cfg) # CallCheckVersion cfg (Version w) None #
           (if expand fl then [CallExpandCluster cfg False None] else []) @
           Log LInfo ''Diffing cluster %s'' [AStr (DescriptiveName w cfg)] # CallDirExists (ExpandedPath cfg) (Inr True) #
           (if kubeConfig fl = [] then [CallGetenv ''KUBECONFIG'' kc] else []) @
           CallKubeconfigMatchesCluster kc (Cluster cfg) True # t' @
           [Log LError ''Error running diff: %+v'' [AErr e],
            Log LInfo ''Try re-running with --simple-output, then with --debug to see verbose output. Note that diffs will not work if target namespace(s) don't exist yet.'' []]"
    | (Diffed) cfg kc results rawDiffs t' where "LoadClusterConfig w path [] = Inr cfg"
      "CheckVersion w cfg (Version w) = None"
      "expand fl \<longrightarrow> expandCluster w cfg False = None"
      "DirExists w (ExpandedPath cfg) = Inr True"
      "kc = (if kubeConfig fl = [] then Getenv w ''KUBECONFIG'' else kubeConfig fl)"
      "kc \<noteq> []"
      "KubeconfigMatchesCluster w kc (Cluster cfg)"
      "execDiff w dbg (cfg\<lparr>KubeConfigPath := kc, Subpaths := subpaths fl\<rparr>) (simpleOutput fl) =
         ((results, rawDiffs, None), t')"
      "r = None"
      "t = CallLoadClusterConfig path [] (Inr cfg) # CallCheckVersion cfg (Version w) None #
           (if expand fl then [CallExpandCluster cfg False None] else []) @
           Log LInfo ''Diffing cluster %s'' [AStr (DescriptiveName w cfg)] # CallDirExists (ExpandedPath cfg) (Inr True) #
           (if kubeConfig fl = [] then [CallGetenv ''KUBECONFIG'' kc] else []) @
           CallKubeconfigMatchesCluster kc (Cluster cfg) True # t' @
           [if results \<noteq> None then CallPrintFull results
            else Log LInfo ''Raw diff results:\<newline>%s'' [AStr rawDiffs]]"
proof (cases rule: diffClusterPath_preludeE [OF assms])
  case (1 e)
  then show ?thesis by (rule LoadFailed)
next
  case (2 cfg e)
  then show ?thesis by (rule VersionFailed)
next
  case (3 cfg e)
  then show ?thesis by (rule ExpandFailed)
next
  case prep: (4 cfg t1)
  show ?thesis
  proof (cases rule: diffClusterPath_checkedE [OF prep(4)])
    case (1 e)
    show ?thesis
      by (rule DirFailed [OF prep(1-3) 1(1,2)]) (simp add: prep(5) 1(3))
  next
    case 2
    show ?thesis
      by (rule DirMissing [OF prep(1-3) 2(1,2)]) (simp add: prep(5) 2(3))
  next
    case 3
    show ?thesis
      by (rule NoKubeconfig [OF prep(1-3) 3(1-4)]) (simp add: prep(5) 3(5))
  next
    case res: (4 kc t2)
    show ?thesis
    proof (cases rule: diffClusterPath_diffE [OF res(4)])
      case 1
      show ?thesis
        by (rule NameMismatch [OF prep(1-3) res(1-3) 1(1,2)]) (simp add: prep(5) res(5) 1(3))
    next
      case (2 results rawDiffs e t3)
      show ?thesis
        by (rule DiffFailed [OF prep(1-3) res(1-3) 2(1-3)]) (simp add: prep(5) res(5) 2(4))
    next
      case (3 results rawDiffs t3)
      show ?thesis
        by (rule Diffed [OF prep(1-3) res(1-3) 3(1-3)]) (simp add: prep(5) res(5) 3(4))
    qed
  qed
qed

subsection \<open>Events of \<open>execDiff\<close>\<close>

lemma execDiff_no_name_check:
  assumes "execDiff w dbg cfg simple = (r, t)"
  shows "CallKubeconfigMatchesCluster kc cl m \<notin> set t"
  using assms by (cases rule: execDiff_paths) auto

lemma execDiff_no_output:
  assumes "execDiff w dbg cfg simple = (r, t)"
  shows "filter isResultOutput t = []"
  using assms by (cases rule: execDiff_paths) auto

lemma execDiff_no_getenv:
  assumes "execDiff w dbg cfg simple = (r, t)"
  shows "CallGetenv n v \<notin> set t"
  using assms by (cases rule: execDiff_paths) auto

lemma execDiff_no_dir:
  assumes "execDiff w dbg cfg simple = (r, t)"
  shows "CallDirExists d v \<notin> set t"
  using assms by (cases rule: execDiff_paths) auto

lemma execDiff_client_config:
  assumes "execDiff w dbg cfg simple = (r, t)"
      and "CallNewKubeClusterClient ccfg res \<in> set t"
  shows "ccfg = execDiff_clientConfig dbg cfg"
  using assms by (cases rule: execDiff_paths) (auto split: if_splits)

lemma execDiff_failed_diff:
  assumes "execDiff w dbg cfg simple = ((res, raw, err), t)"
      and "CallDiff ps ssa (raw', Some e) \<in> set t \<or>
           CallDiffStructured ps ssa opt (res', Some e) \<in> set t"
  shows "err = Some e"
  using assms by (cases rule: execDiff_paths) (auto split: if_splits)

lemma execDiff_ok_diff:
  assumes "execDiff w dbg cfg simple = ((res, raw, None), t)"
  shows "CallDiff ps ssa (raw', Some e) \<notin> set t \<and>
         CallDiffStructured ps ssa opt (res', Some e) \<notin> set t"
  using assms by (cases rule: execDiff_paths) (auto split: if_splits)

subsection \<open>The runs of \<open>kdiffRun\<close>\<close>

lemma kdiffRun_diffE:
  assumes "kdiffRun_diff w args shortDiff = (r, t)"
  obtains (DiffFailed) e where "DiffKube w (args ! 0) (args ! 1) shortDiff = Inl e"
      "r = Some e"
      "t = [CallDiffKube (args ! 0) (args ! 1) shortDiff (Inl e)]"
    | (MarshalFailed) results e where
      "DiffKube w (args ! 0) (args ! 1) shortDiff = Inr results"
      "MarshalIndent w \<lparr>Results = results\<rparr> [] ''  '' = Inl e"
      "r = Some e"
      "t = [CallDiffKube (args ! 0) (args ! 1) shortDiff (Inr results),
            CallMarshalIndent \<lparr>Results = results\<rparr> [] ''  '' (Inl e)]"
    | (Printed) results jsonBytes where
      "DiffKube w (args ! 0) (args ! 1) shortDiff = Inr results"
      "MarshalIndent w \<lparr>Results = results\<rparr> [] ''  '' = Inr jsonBytes"
      "r = None"
      "t = [CallDiffKube (args ! 0) (args ! 1) shortDiff (Inr results),
            CallMarshalIndent \<lparr>Results = results\<rparr> [] ''  '' (Inr jsonBytes),
            Println jsonBytes]"
  using assms by (auto simp: kdiffRun_diff_def Let_def split: sum.splits)

lemma kdiffRun_paths:
  assumes "kdiffRun w args = (r, t)"
  obtains (WrongCount) "length args \<noteq> 2"
      "r = Some (ErrorsNew ''Expected exactly two arguments'')" "t = []"
    | (TwoArgs) "length args = 2" "kdiffRun_diff w args False = (r, t)"
  using assms by (auto simp: kdiffRun_def split: if_splits)

subsection \<open>No run asks for a lock\<close>

lemma execDiff_no_lock:
  assumes "execDiff w dbg cfg simple = (r, t)"
  shows "\<not> list_ex requestsLock t"
  using assms
  by (cases rule: execDiff_paths) (auto simp: execDiff_clientConfig_def)

lemma diffClusterPath_no_lock:
  assumes "diffClusterPath w fl dbg path = (r, t)"
  shows "\<not> list_ex requestsLock t"
  using assms
proof (cases rule: diffClusterPath_paths)
  case (DiffFailed cfg kc results rawDiffs e t')
  with execDiff_no_lock [OF DiffFailed(8)] show ?thesis
    by (auto split: if_splits)
next
  case (Diffed cfg kc results rawDiffs t')
  with execDiff_no_lock [OF Diffed(8)] show ?thesis
    by (auto split: if_splits)
qed (auto split: if_splits)

lemma diffRun_paths_no_lock:
  "diffRun_paths w fl dbg paths = (r, t) \<Longrightarrow> \<not> list_ex requestsLock t"
proof (induction paths arbitrary: r t)
  case Nil
  then show ?case by simp
next
  case (Cons path paths)
  obtain r1 t1 where first: "diffClusterPath w fl dbg path = (r1, t1)"
    by fastforce
  obtain r2 t2 where rest: "diffRun_paths w fl dbg paths = (r2, t2)"
    by fastforce
  from Cons.prems first rest have "set t \<subseteq> set t1 \<union> set t2"
    by (auto split: option.splits)
  with diffClusterPath_no_lock [OF first] Cons.IH [OF rest] show ?case
    by (auto simp: list_ex_iff)
qed

lemma diffRun_no_lock:
  "diffRun w fl dbg args = (r, t) \<Longrightarrow> \<not> list_ex requestsLock t"
proof (induction args arbitrary: r t)
  case Nil
  then show ?case by simp
next
  case (Cons a as)
  show ?case
  proof (cases "Glob w a")
    case (Inl e)
    with Cons.prems show ?thesis by auto
  next
    case (Inr paths)
    obtain r1 t1 where first: "diffRun_paths w fl dbg paths = (r1, t1)"
      by fastforce
    obtain r2 t2 where rest: "diffRun w fl dbg as = (r2, t2)"
      by fastforce
    from Cons.prems Inr first rest
    have "set t \<subseteq> insert (CallGlob a (Inr paths)) (set t1 \<union> set t2)"
      by (auto split: option.splits)
    with diffRun_paths_no_lock [OF first] Cons.IH [OF rest] show ?thesis
      by (auto simp: list_ex_iff)
  qed
qed

lemmas demo_defs = demoWorld_def demoConfig_def demoClient_def demoFlags_def
  unreachable_def wrongContext_def otherCluster_def healthy_def missingNamespace_def

lemmas run_defs = diffClusterPath_def diffClusterPath_expanded_def diffClusterPath_diff_def
  resolveKubeConfig_def execDiff_def execDiff_checked_def execDiff_run_def
  execDiff_clientConfig_def kdiffRun_def kdiffRun_diff_def

section \<open>The claims\<close>

subsection \<open>C1: the recorded identifier is checked against the live one\<close>

text \<open>
  C1 as stated says that every call of \<open>execDiff\<close> with a non-empty recorded identifier
  looks up the live identifier of \<open>kube-system\<close>. That fails when the cluster client
  cannot be constructed: \<open>execDiff\<close> then returns the construction error at once. On
  the sample cluster with recorded identifier \<open>abc-123\<close> and an unreachable cluster the
  run holds no lookup.
\<close>

theorem execDiff_no_lookup_without_client:
  "UID (demoConfig ''abc-123'') \<noteq> [] \<and>
   fst (execDiff unreachable False (demoConfig ''abc-123'') False) =
     (None, [], Some (External ''cluster unreachable'')) \<and>
   filter isUIDLookup (snd (execDiff unreachable False (demoConfig ''abc-123'') False)) = []"
  by (simp add: run_defs demo_defs)

text \<open>
  C1, amended: when the recorded identifier is empty, \<open>execDiff\<close> performs no lookup of a
  live identifier. When it is not empty and the cluster client has been constructed,
  \<open>execDiff\<close> performs exactly one lookup, of the namespace \<open>kube-system\<close>; and if the
  live identifier differs from the recorded one, \<open>execDiff\<close> returns the mismatch error
  (with nil results and empty raw text) and its run holds no call of \<open>Diff\<close> or
  \<open>DiffStructured\<close>.
\<close>

theorem execDiff_identifier_guard:
  assumes "execDiff w dbg cfg simple = (r, tr)"
  shows "(UID cfg = [] \<longrightarrow> \<not> list_ex isUIDLookup tr) \<and>
   (UID cfg \<noteq> [] \<and> NewKubeClusterClient w (execDiff_clientConfig dbg cfg) = Inr c \<longrightarrow>
      filter isUIDLookup tr =
        [CallGetNamespaceUID ''kube-system'' (GetNamespaceUID c ''kube-system'')] \<and>
      (\<forall>live. GetNamespaceUID c ''kube-system'' = Inr live \<and> live \<noteq> UID cfg \<longrightarrow>
         r = (None, [], Some (Errorf ''Kubeapply config does not match this cluster (wrong kube context?): kube-system uids do not match (%s!=%s)'' [UID cfg, live])) \<and>
         \<not> list_ex isDiffCall tr))"
  using assms by (cases rule: execDiff_paths) auto

theorem execDiff_identifier_guard_witness:
  "UID (demoConfig ''abc-123'') \<noteq> [] \<and>
   NewKubeClusterClient otherCluster (execDiff_clientConfig False (demoConfig ''abc-123'')) =
     Inr (demoClient ''xyz-789'' None) \<and>
   GetNamespaceUID (demoClient ''xyz-789'' None) ''kube-system'' = Inr ''xyz-789'' \<and>
   fst (execDiff otherCluster False (demoConfig ''abc-123'') False) =
     (None, [], Some (Errorf ''Kubeapply config does not match this cluster (wrong kube context?): kube-system uids do not match (%s!=%s)'' [''abc-123'', ''xyz-789''])) \<and>
   \<not> list_ex isDiffCall (snd (execDiff otherCluster False (demoConfig ''abc-123'') False)) \<and>
   UID (demoConfig []) = [] \<and>
   \<not> list_ex isUIDLookup (snd (execDiff wrongContext False (demoConfig []) False))"
proof -
  let ?checked = "execDiff otherCluster False (demoConfig ''abc-123'') False"
  let ?unchecked = "execDiff wrongContext False (demoConfig []) False"
  have recorded: "?checked = (fst ?checked, snd ?checked)"
    by simp
  have no_record: "?unchecked = (fst ?unchecked, snd ?unchecked)"
    by simp
  have given: "UID (demoConfig ''abc-123'') \<noteq> []"
    "NewKubeClusterClient otherCluster (execDiff_clientConfig False (demoConfig ''abc-123'')) =
       Inr (demoClient ''xyz-789'' None)"
    "GetNamespaceUID (demoClient ''xyz-789'' None) ''kube-system'' = Inr ''xyz-789''"
    "''xyz-789'' \<noteq> UID (demoConfig ''abc-123'')"
    "UID (demoConfig []) = []"
    by (simp_all add: demo_defs)
  from execDiff_identifier_guard [OF recorded, where c = "demoClient ''xyz-789'' None"]
    execDiff_identifier_guard [OF no_record, THEN conjunct1] given
  show ?thesis
    by (simp add: demoConfig_def)
qed

subsection \<open>C2: a kubeconfig that references another cluster is rejected\<close>

text \<open>
  C2: whenever \<open>diffClusterPath\<close> has resolved a kubeconfig \<open>kc\<close> and
  \<open>kube.KubeconfigMatchesCluster\<close> answers that it does not reference the cluster \<open>cl\<close>,
  \<open>diffClusterPath\<close> returns the error "Kubeconfig in \<open>kc\<close> does not appear to reference
  cluster \<open>cl\<close>", and its run holds no call of \<open>Diff\<close> or \<open>DiffStructured\<close> and no lookup
  of a live identifier. Here \<open>cl\<close> is the cluster name of the loaded configuration and
  \<open>kc\<close> is the flag value or, when that is empty, the value of \<open>KUBECONFIG\<close>. Nothing is
  assumed about the recorded identifier: the witness takes a configuration that records
  none.
\<close>

theorem diffClusterPath_name_mismatch:
  assumes "diffClusterPath w fl dbg path = (r, tr)"
      and "CallKubeconfigMatchesCluster kc cl False \<in> set tr"
  shows "r = Some (Errorf ''Kubeconfig in %s does not appear to reference cluster %s'' [kc, cl]) \<and>
   \<not> list_ex isDiffCall tr \<and>
   \<not> list_ex isUIDLookup tr \<and>
   (\<exists>cfg. LoadClusterConfig w path [] = Inr cfg \<and> cl = Cluster cfg) \<and>
   kc = (if kubeConfig fl = [] then Getenv w ''KUBECONFIG'' else kubeConfig fl)"
  using assms
  by (cases rule: diffClusterPath_paths) (auto simp: execDiff_no_name_check split: if_splits)

theorem diffClusterPath_name_mismatch_witness:
  "CallKubeconfigMatchesCluster ''kube.conf'' ''prod-east'' False \<in>
     set (snd (diffClusterPath wrongContext
                 (demoFlags ''kube.conf'' False) False ''prod-east.yaml'')) \<and>
   UID (demoConfig []) = [] \<and>
   fst (diffClusterPath wrongContext
          (demoFlags ''kube.conf'' False) False ''prod-east.yaml'') =
     Some (Errorf ''Kubeconfig in %s does not appear to reference cluster %s''
             [''kube.conf'', ''prod-east'']) \<and>
   \<not> list_ex isDiffCall
     (snd (diffClusterPath wrongContext
             (demoFlags ''kube.conf'' False) False ''prod-east.yaml''))"
proof -
  let ?run = "diffClusterPath wrongContext
                (demoFlags ''kube.conf'' False) False ''prod-east.yaml''"
  have run: "?run = (fst ?run, snd ?run)"
    by simp
  have checked: "CallKubeconfigMatchesCluster ''kube.conf'' ''prod-east'' False \<in> set (snd ?run)"
    by (simp add: run_defs demo_defs)
  from diffClusterPath_name_mismatch [OF run checked] checked show ?thesis
    by (simp add: demoConfig_def)
qed

subsection \<open>C3: no diff after a failed identity check\<close>

text \<open>
  C3: in every run of \<open>diffClusterPath\<close>, if the kubeconfig was found not to reference
  the cluster, or if the live identifier of a namespace was fetched and differs from the
  identifier recorded in the loaded configuration, then the run holds no call of \<open>Diff\<close>
  or \<open>DiffStructured\<close>. Moreover identity verification comes first: from the first diff
  call on, the run holds no identity check, and a run that calls the diff holds, before
  that call, a check of the kubeconfig against the cluster name that succeeded.
\<close>

theorem identity_failure_precludes_diff:
  assumes "diffClusterPath w fl dbg path = (r, tr)"
  shows "(CallKubeconfigMatchesCluster kc cl False \<in> set tr \<longrightarrow> \<not> list_ex isDiffCall tr) \<and>
   (LoadClusterConfig w path [] = Inr cfg \<and>
    CallGetNamespaceUID ns (Inr live) \<in> set tr \<and> live \<noteq> UID cfg \<longrightarrow>
      \<not> list_ex isDiffCall tr) \<and>
   \<not> list_ex isIdentityCheck (dropWhile (\<lambda>e. \<not> isDiffCall e) tr) \<and>
   (list_ex isDiffCall tr \<longrightarrow>
      (\<exists>k c. CallKubeconfigMatchesCluster k c True \<in>
                set (takeWhile (\<lambda>e. \<not> isDiffCall e) tr)))"
  using assms
proof (cases rule: diffClusterPath_paths)
  case (DiffFailed cfg' kc' results rawDiffs e t')
  from DiffFailed(8) show ?thesis
    by (cases rule: execDiff_paths) (use DiffFailed in \<open>auto split: if_splits\<close>)
next
  case (Diffed cfg' kc' results rawDiffs t')
  from Diffed(8) show ?thesis
    by (cases rule: execDiff_paths) (use Diffed in \<open>auto split: if_splits\<close>)
qed (auto split: if_splits)

theorem identity_failure_precludes_diff_witness:
  "CallKubeconfigMatchesCluster ''kube.conf'' ''prod-east'' False \<in>
     set (snd (diffClusterPath wrongContext (demoFlags ''kube.conf'' False) False ''prod-east.yaml'')) \<and>
   \<not> list_ex isDiffCall
     (snd (diffClusterPath wrongContext (demoFlags ''kube.conf'' False) False ''prod-east.yaml'')) \<and>
   LoadClusterConfig otherCluster ''prod-east.yaml'' [] = Inr (demoConfig ''abc-123'') \<and>
   CallGetNamespaceUID ''kube-system'' (Inr ''xyz-789'') \<in>
     set (snd (diffClusterPath otherCluster (demoFlags ''kube.conf'' False) False ''prod-east.yaml'')) \<and>
   ''xyz-789'' \<noteq> UID (demoConfig ''abc-123'') \<and>
   \<not> list_ex isDiffCall
     (snd (diffClusterPath otherCluster (demoFlags ''kube.conf'' False) False ''prod-east.yaml'')) \<and>
   list_ex isDiffCall
     (snd (diffClusterPath healthy (demoFlags ''kube.conf'' False) False ''prod-east.yaml'')) \<and>
   (\<exists>k c. CallKubeconfigMatchesCluster k c True \<in>
      set (takeWhile (\<lambda>e. \<not> isDiffCall e)
             (snd (diffClusterPath healthy (demoFlags ''kube.conf'' False) False
                     ''prod-east.yaml''))))"
proof -
  let ?verified = "diffClusterPath healthy (demoFlags ''kube.conf'' False) False ''prod-east.yaml''"
  have verified: "?verified = (fst ?verified, snd ?verified)"
    by simp
  have diffed: "list_ex isDiffCall (snd ?verified)"
    by (simp add: run_defs demo_defs)
  let ?named = "diffClusterPath wrongContext (demoFlags ''kube.conf'' False) False ''prod-east.yaml''"
  let ?identified = "diffClusterPath otherCluster (demoFlags ''kube.conf'' False) False ''prod-east.yaml''"
  have named: "?named = (fst ?named, snd ?named)"
    by simp
  have identified: "?identified = (fst ?identified, snd ?identified)"
    by simp
  have name_check: "CallKubeconfigMatchesCluster ''kube.conf'' ''prod-east'' False \<in> set (snd ?named)"
    by (simp add: run_defs demo_defs)
  have loaded: "LoadClusterConfig otherCluster ''prod-east.yaml'' [] = Inr (demoConfig ''abc-123'')"
    by (simp add: demo_defs)
  have lookup: "CallGetNamespaceUID ''kube-system'' (Inr ''xyz-789'') \<in> set (snd ?identified)"
    by (simp add: run_defs demo_defs)
  have differs: "''xyz-789'' \<noteq> UID (demoConfig ''abc-123'')"
    by (simp add: demo_defs)
  from identity_failure_precludes_diff [OF verified] diffed
  have ordered: "\<exists>k c. CallKubeconfigMatchesCluster k c True \<in>
      set (takeWhile (\<lambda>e. \<not> isDiffCall e) (snd ?verified))"
    by blast
  from identity_failure_precludes_diff [OF named, where kc = "''kube.conf''" and cl = "''prod-east''"]
    identity_failure_precludes_diff [OF identified, where cfg = "demoConfig ''abc-123''" and ns = "''kube-system''"
      and live = "''xyz-789''"]
    name_check loaded lookup differs diffed ordered
  show ?thesis
    by simp
qed

subsection \<open>C4: where the kubeconfig comes from\<close>

text \<open>
  C4: in every run of \<open>diffClusterPath\<close> the kubeconfig that is checked against the
  cluster name, and the one put into the configuration of the cluster client, is the
  value of the flag \<open>--kubeconfig\<close> when that is not empty, and the value of \<open>KUBECONFIG\<close>
  otherwise, and it is not empty; once the expanded directory has been found to exist
  and one of the two sources is not empty, that check does take place. The environment
  is not read when the flag is set. When both are empty the run fails, with no identity
  check and no diff call in it; and if it got as far as finding the expanded directory,
  the error is "Must either set --kubeconfig flag or KUBECONFIG env variable" and
  reading the environment was its last step.
\<close>

theorem kubeconfig_resolution_chain:
  assumes "diffClusterPath w fl dbg path = (r, tr)"
  shows "(CallKubeconfigMatchesCluster kc cl m \<in> set tr \<longrightarrow>
      kc \<noteq> [] \<and> kc = (if kubeConfig fl \<noteq> [] then kubeConfig fl else Getenv w ''KUBECONFIG'')) \<and>
   (CallNewKubeClusterClient ccfg res \<in> set tr \<longrightarrow>
      KubeConfigPath (ClusterConfig ccfg) =
        (if kubeConfig fl \<noteq> [] then kubeConfig fl else Getenv w ''KUBECONFIG'')) \<and>
   (CallDirExists dir (Inr True) \<in> set tr \<and>
    (kubeConfig fl \<noteq> [] \<or> Getenv w ''KUBECONFIG'' \<noteq> []) \<longrightarrow>
      (\<exists>c b. CallKubeconfigMatchesCluster
                (if kubeConfig fl \<noteq> [] then kubeConfig fl else Getenv w ''KUBECONFIG'') c b
              \<in> set tr)) \<and>
   (kubeConfig fl \<noteq> [] \<longrightarrow> CallGetenv name val \<notin> set tr) \<and>
   (kubeConfig fl = [] \<and> Getenv w ''KUBECONFIG'' = [] \<longrightarrow>
      r \<noteq> None \<and> \<not> list_ex isIdentityCheck tr \<and> \<not> list_ex isDiffCall tr \<and>
      (CallDirExists dir (Inr True) \<in> set tr \<longrightarrow>
         r = Some (ErrorsNew ''Must either set --kubeconfig flag or KUBECONFIG env variable'') \<and>
         last tr = CallGetenv ''KUBECONFIG'' []))"
  using assms
proof (cases rule: diffClusterPath_paths)
  case (DiffFailed cfg kc' results rawDiffs e t')
  with execDiff_no_name_check [OF DiffFailed(8)] execDiff_no_getenv [OF DiffFailed(8)]
    execDiff_no_dir [OF DiffFailed(8)]
    execDiff_client_config [OF DiffFailed(8), of ccfg res]
  show ?thesis
    by (auto simp: execDiff_clientConfig_def split: if_splits)
next
  case (Diffed cfg kc' results rawDiffs t')
  with execDiff_no_name_check [OF Diffed(8)] execDiff_no_getenv [OF Diffed(8)]
    execDiff_no_dir [OF Diffed(8)]
    execDiff_client_config [OF Diffed(8), of ccfg res]
  show ?thesis
    by (auto simp: execDiff_clientConfig_def split: if_splits)
qed (auto split: if_splits)

theorem kubeconfig_resolution_chain_witness:
  "kubeConfig (demoFlags [] False) = [] \<and> Getenv otherCluster ''KUBECONFIG'' = [] \<and>
   CallDirExists ''expanded/prod-east'' (Inr True) \<in>
     set (snd (diffClusterPath otherCluster (demoFlags [] False) False ''prod-east.yaml'')) \<and>
   fst (diffClusterPath otherCluster (demoFlags [] False) False ''prod-east.yaml'') =
     Some (ErrorsNew ''Must either set --kubeconfig flag or KUBECONFIG env variable'') \<and>
   \<not> list_ex isIdentityCheck
     (snd (diffClusterPath otherCluster (demoFlags [] False) False ''prod-east.yaml'')) \<and>
   \<not> list_ex isDiffCall
     (snd (diffClusterPath otherCluster (demoFlags [] False) False ''prod-east.yaml'')) \<and>
   kubeConfig (demoFlags [] True) = [] \<and> Getenv healthy ''KUBECONFIG'' = ''env.conf'' \<and>
   CallKubeconfigMatchesCluster ''env.conf'' ''prod-east'' True \<in>
     set (snd (diffClusterPath healthy (demoFlags [] True) False ''prod-east.yaml'')) \<and>
   kubeConfig (demoFlags ''kube.conf'' True) = ''kube.conf'' \<and>
   CallKubeconfigMatchesCluster ''kube.conf'' ''prod-east'' True \<in>
     set (snd (diffClusterPath healthy (demoFlags ''kube.conf'' True) False ''prod-east.yaml''))"
proof -
  let ?none = "diffClusterPath otherCluster (demoFlags [] False) False ''prod-east.yaml''"
  let ?env = "diffClusterPath healthy (demoFlags [] True) False ''prod-east.yaml''"
  let ?flag = "diffClusterPath healthy (demoFlags ''kube.conf'' True) False ''prod-east.yaml''"
  have none: "?none = (fst ?none, snd ?none)"
    by simp
  have env: "?env = (fst ?env, snd ?env)"
    by simp
  have flag: "?flag = (fst ?flag, snd ?flag)"
    by simp
  have unset: "kubeConfig (demoFlags [] False) = []" "Getenv otherCluster ''KUBECONFIG'' = []"
    "kubeConfig (demoFlags [] True) = []" "Getenv healthy ''KUBECONFIG'' = ''env.conf''"
    "kubeConfig (demoFlags ''kube.conf'' True) = ''kube.conf''"
    by (simp_all add: demo_defs)
  have dir: "CallDirExists ''expanded/prod-east'' (Inr True) \<in> set (snd ?none)"
    by (simp add: run_defs demo_defs)
  have by_env: "CallKubeconfigMatchesCluster ''env.conf'' ''prod-east'' True \<in> set (snd ?env)"
    by (simp add: run_defs demo_defs)
  have by_flag: "CallKubeconfigMatchesCluster ''kube.conf'' ''prod-east'' True \<in> set (snd ?flag)"
    by (simp add: run_defs demo_defs)
  from kubeconfig_resolution_chain [OF none, where dir = "''expanded/prod-east''"]
    kubeconfig_resolution_chain [OF env, where kc = "''env.conf''" and cl = "''prod-east''" and m = True]
    kubeconfig_resolution_chain [OF flag, where kc = "''kube.conf''" and cl = "''prod-east''" and m = True]
    unset dir by_env by_flag
  show ?thesis
    by simp
qed

subsection \<open>C5: raw text or structured results, never both\<close>

text \<open>
  C5: when \<open>execDiff\<close> returns without error, it does not return both non-nil results
  and non-empty raw text: in simple-output mode the results are nil and the raw text is
  what \<open>Diff\<close> returned, in structured mode the raw text is empty and the results are
  what \<open>DiffStructured\<close> returned. A successful run of \<open>diffClusterPath\<close> shows the
  outcome exactly once, as its last step: the structured results in full or the raw
  text in a log record.
\<close>

theorem execDiff_result_exclusive:
  "(execDiff w dbg cfg simple = ((results, raw, None), tr) \<longrightarrow>
      \<not> (results \<noteq> None \<and> raw \<noteq> []) \<and>
      (\<exists>c. NewKubeClusterClient w (execDiff_clientConfig dbg cfg) = Inr c \<and>
           (simple \<longrightarrow> results = None \<and>
              Diff c (AbsSubpaths w cfg) (ServerSideApply cfg) = (raw, None)) \<and>
           (\<not> simple \<longrightarrow> raw = [] \<and>
              DiffStructured c (AbsSubpaths w cfg) (ServerSideApply cfg) [] = (results, None)))) \<and>
   (diffClusterPath w fl dbg path = (None, tr') \<longrightarrow>
      length (filter isResultOutput tr') = 1 \<and> isResultOutput (last tr'))"
proof (intro conjI impI)
  assume run: "execDiff w dbg cfg simple = ((results, raw, None), tr)"
  from run show "\<not> (results \<noteq> None \<and> raw \<noteq> [])"
    by (cases rule: execDiff_paths) auto
  from run show "\<exists>c. NewKubeClusterClient w (execDiff_clientConfig dbg cfg) = Inr c \<and>
           (simple \<longrightarrow> results = None \<and>
              Diff c (AbsSubpaths w cfg) (ServerSideApply cfg) = (raw, None)) \<and>
           (\<not> simple \<longrightarrow> raw = [] \<and>
              DiffStructured c (AbsSubpaths w cfg) (ServerSideApply cfg) [] = (results, None))"
    by (cases rule: execDiff_paths) auto
next
  assume run: "diffClusterPath w fl dbg path = (None, tr')"
  from run show "length (filter isResultOutput tr') = 1"
  proof (cases rule: diffClusterPath_paths)
    case (Diffed cfg kc results rawDiffs t')
    with execDiff_no_output [OF Diffed(8)] show ?thesis
      by (auto split: if_splits)
  qed auto
  from run show "isResultOutput (last tr')"
    by (cases rule: diffClusterPath_paths) (auto split: if_splits)
qed

theorem execDiff_result_exclusive_witness:
  "execDiff healthy False (demoConfig ''abc-123'') True =
     ((None, ''-port: 80 +port: 8080'', None),
      snd (execDiff healthy False (demoConfig ''abc-123'') True)) \<and>
   execDiff healthy False (demoConfig ''abc-123'') False =
     ((Some [''Service web''], [], None),
      snd (execDiff healthy False (demoConfig ''abc-123'') False)) \<and>
   fst (diffClusterPath healthy (demoFlags ''kube.conf'' False) False ''prod-east.yaml'') = None \<and>
   length (filter isResultOutput
     (snd (diffClusterPath healthy (demoFlags ''kube.conf'' False) False ''prod-east.yaml''))) = 1"
proof -
  let ?raw = "execDiff healthy False (demoConfig ''abc-123'') True"
  let ?structured = "execDiff healthy False (demoConfig ''abc-123'') False"
  let ?run = "diffClusterPath healthy (demoFlags ''kube.conf'' False) False ''prod-east.yaml''"
  have raw: "?raw = ((None, ''-port: 80 +port: 8080'', None), snd ?raw)"
    by (simp add: run_defs demo_defs)
  have structured: "?structured = ((Some [''Service web''], [], None), snd ?structured)"
    by (simp add: run_defs demo_defs)
  have ok: "fst ?run = None"
    by (simp add: run_defs demo_defs)
  then have run: "?run = (None, snd ?run)"
    by (metis prod.collapse)
  from execDiff_result_exclusive [where w = healthy and dbg = False and cfg = "demoConfig ''abc-123''" and simple = True
      and results = None and raw = "''-port: 80 +port: 8080''" and tr = "snd ?raw"
      and fl = "demoFlags ''kube.conf'' False" and path = "''prod-east.yaml''"
      and tr' = "snd ?run"]
    execDiff_result_exclusive [where w = healthy and dbg = False and cfg = "demoConfig ''abc-123''" and simple = False
      and results = "Some [''Service web'']" and raw = "[]" and tr = "snd ?structured"
      and fl = "demoFlags ''kube.conf'' False" and path = "''prod-east.yaml''"
      and tr' = "snd ?run"]
    raw structured ok run
  show ?thesis
    by simp
qed

subsection \<open>C6: a failed diff returns its error and logs the hint\<close>

text \<open>
  C6: whenever the call of \<open>Diff\<close> or of \<open>DiffStructured\<close> in a run of
  \<open>diffClusterPath\<close> returned an error \<open>e\<close>, \<open>diffClusterPath\<close> returns that same \<open>e\<close>, logs
  it at error level, and ends by logging the hint that says that diffs will not work if
  the target namespaces do not exist yet.
\<close>

theorem diff_failure_returns_error_and_hint:
  assumes "diffClusterPath w fl dbg path = (r, tr)"
      and "CallDiff ps ssa (raw, Some e) \<in> set tr \<or>
           CallDiffStructured ps ssa opt (res, Some e) \<in> set tr"
  shows "r = Some e \<and>
   Log LError ''Error running diff: %+v'' [AErr e] \<in> set tr \<and>
   last tr = Log LInfo ''Try re-running with --simple-output, then with --debug to see verbose output. Note that diffs will not work if target namespace(s) don't exist yet.'' []"
  using assms
proof (cases rule: diffClusterPath_paths)
  case (DiffFailed cfg kc results rawDiffs e' t')
  with assms(2) execDiff_failed_diff [OF DiffFailed(8), of ps ssa raw e opt res]
  show ?thesis by (auto split: if_splits)
next
  case (Diffed cfg kc results rawDiffs t')
  with assms(2) execDiff_ok_diff [OF Diffed(8), of ps ssa raw e opt res]
  show ?thesis by (auto split: if_splits)
qed (auto split: if_splits)

theorem diff_failure_returns_error_and_hint_witness:
  "CallDiff [''expanded/prod-east''] False
     (''-port: 80 +port: 8080'', Some (External ''namespace web not found'')) \<in>
     set (snd (diffClusterPath missingNamespace (demoFlags ''kube.conf'' True) False ''prod-east.yaml'')) \<and>
   fst (diffClusterPath missingNamespace (demoFlags ''kube.conf'' True) False ''prod-east.yaml'') =
     Some (External ''namespace web not found'') \<and>
   last (snd (diffClusterPath missingNamespace (demoFlags ''kube.conf'' True) False ''prod-east.yaml'')) =
     Log LInfo ''Try re-running with --simple-output, then with --debug to see verbose output. Note that diffs will not work if target namespace(s) don't exist yet.'' []"
proof -
  let ?run = "diffClusterPath missingNamespace (demoFlags ''kube.conf'' True) False ''prod-east.yaml''"
  have run: "?run = (fst ?run, snd ?run)"
    by simp
  have failed: "CallDiff [''expanded/prod-east''] False
     (''-port: 80 +port: 8080'', Some (External ''namespace web not found'')) \<in> set (snd ?run)"
    by (simp add: run_defs demo_defs)
  from diff_failure_returns_error_and_hint [OF run disjI1 [OF failed]] failed show ?thesis
    by simp
qed

subsection \<open>C8: the envelope around the results of kdiff\<close>

text \<open>
  C8: for two arguments, whatever sequence of results \<open>DiffKube\<close> returns (of any
  length, empty or nil), \<open>kdiffRun\<close> wraps exactly that sequence in the envelope with
  the one field \<open>Results\<close>, encodes the envelope with \<open>MarshalIndent\<close> with empty prefix
  and an indent of two spaces, and prints the encoding. Conversely everything
  \<open>kdiffRun\<close> prints is such an encoding, and every envelope it encodes is determined
  by its field \<open>Results\<close>, which holds what \<open>DiffKube\<close> returned.
\<close>

theorem kdiffRun_envelope:
  assumes "kdiffRun w args = (r, tr)"
  shows "(length args = 2 \<and> DiffKube w (args ! 0) (args ! 1) False = Inr results \<and>
    MarshalIndent w \<lparr>Results = results\<rparr> [] ''  '' = Inr out \<longrightarrow>
      r = None \<and>
      tr = [CallDiffKube (args ! 0) (args ! 1) False (Inr results),
            CallMarshalIndent \<lparr>Results = results\<rparr> [] ''  '' (Inr out),
            Println out]) \<and>
   (Println printed \<in> set tr \<longrightarrow>
      length args = 2 \<and>
      (\<exists>rs. DiffKube w (args ! 0) (args ! 1) False = Inr rs \<and>
            MarshalIndent w \<lparr>Results = rs\<rparr> [] ''  '' = Inr printed)) \<and>
   (CallMarshalIndent wrapped prefix indent res \<in> set tr \<longrightarrow>
      prefix = [] \<and> indent = ''  '' \<and> wrapped = \<lparr>Results = Results wrapped\<rparr> \<and>
      DiffKube w (args ! 0) (args ! 1) False = Inr (Results wrapped))"
  using assms
proof (cases rule: kdiffRun_paths)
  case WrongCount
  then show ?thesis by auto
next
  case TwoArgs
  from TwoArgs(2) show ?thesis
    by (cases rule: kdiffRun_diffE) (use TwoArgs(1) in auto)
qed

theorem kdiffRun_envelope_witness:
  "length [''old'', ''new''] = 2 \<and>
   DiffKube healthy ([''old'', ''new''] ! 0) ([''old'', ''new''] ! 1) False = Inr (Some []) \<and>
   MarshalIndent healthy \<lparr>Results = Some []\<rparr> [] ''  '' = Inr ''{ results: [] }'' \<and>
   kdiffRun healthy [''old'', ''new''] =
     (None,
      [CallDiffKube ''old'' ''new'' False (Inr (Some [])),
       CallMarshalIndent \<lparr>Results = Some []\<rparr> [] ''  '' (Inr ''{ results: [] }''),
       Println ''{ results: [] }''])"
proof -
  let ?run = "kdiffRun healthy [''old'', ''new'']"
  have run: "?run = (fst ?run, snd ?run)"
    by simp
  have given: "length [''old'', ''new''] = 2"
    "DiffKube healthy ([''old'', ''new''] ! 0) ([''old'', ''new''] ! 1) False = Inr (Some [])"
    "MarshalIndent healthy \<lparr>Results = Some []\<rparr> [] ''  '' = Inr ''{ results: [] }''"
    by (simp_all add: demo_defs)
  note kdiffRun_envelope
    [OF run, where results = "Some []" and out = "''{ results: [] }''", THEN conjunct1]
  with given have "fst ?run = None \<and>
    snd ?run = [CallDiffKube ([''old'', ''new''] ! 0) ([''old'', ''new''] ! 1) False (Inr (Some [])),
       CallMarshalIndent \<lparr>Results = Some []\<rparr> [] ''  '' (Inr ''{ results: [] }''),
       Println ''{ results: [] }'']"
    by blast
  with given show ?thesis
    by (simp add: prod_eq_iff)
qed

subsection \<open>C9: the diff command never asks for a lock\<close>

text \<open>
  C9: in every run of the diff command (\<open>diffRun\<close>, over all arguments and all paths
  they expand to), every construction of a cluster client is given \<open>UseLocks = false\<close>,
  as the configuration built by \<open>execDiff\<close> always is. By the spec's description of the
  \<open>Locking\<close> state, such a client does not enter that state: it acquires no lock and
  cannot fail with LockTimeout.
\<close>

theorem diff_never_locks:
  assumes "diffRun w fl dbg args = (r, tr)"
  shows "(CallNewKubeClusterClient ccfg res \<in> set tr \<longrightarrow>
      \<not> UseLocks ccfg \<and> Locking (UseLocks ccfg) inTime = LockNotEntered) \<and>
   \<not> UseLocks (execDiff_clientConfig dbg cfg)"
  using diffRun_no_lock [OF assms]
  by (auto simp: list_ex_iff Locking_def execDiff_clientConfig_def)

theorem diff_never_locks_witness:
  "CallNewKubeClusterClient
     (execDiff_clientConfig False
        ((demoConfig ''abc-123'')\<lparr>KubeConfigPath := ''kube.conf'', Subpaths := []\<rparr>)) None \<in>
     set (snd (diffRun healthy (demoFlags ''kube.conf'' False) False [''prod-east.yaml''])) \<and>
   \<not> UseLocks (execDiff_clientConfig False
        ((demoConfig ''abc-123'')\<lparr>KubeConfigPath := ''kube.conf'', Subpaths := []\<rparr>)) \<and>
   Locking (UseLocks (execDiff_clientConfig False
        ((demoConfig ''abc-123'')\<lparr>KubeConfigPath := ''kube.conf'', Subpaths := []\<rparr>))) False =
     LockNotEntered"
proof -
  let ?run = "diffRun healthy (demoFlags ''kube.conf'' False) False [''prod-east.yaml'']"
  have run: "?run = (fst ?run, snd ?run)"
    by simp
  have constructed: "CallNewKubeClusterClient
     (execDiff_clientConfig False
        ((demoConfig ''abc-123'')\<lparr>KubeConfigPath := ''kube.conf'', Subpaths := []\<rparr>)) None \<in>
     set (snd ?run)"
    by (simp add: run_defs demo_defs)
  from diff_never_locks [OF run, where res = None and inTime = False] constructed show ?thesis
    by blast
qed

subsection \<open>C10: kdiff takes exactly two arguments\<close>

text \<open>
  C10: \<open>kdiffRun\<close> returns the error "Expected exactly two arguments", with no effect
  at all, for every argument list whose length is not two. So no run of \<open>kdiffRun\<close>
  parses a third argument with \<open>ParseBool\<close>, and every call of \<open>DiffKube\<close> is made on
  the two arguments with \<open>shortDiff\<close> false.
\<close>

theorem kdiffRun_requires_two_arguments:
  assumes "kdiffRun w args = (r, tr)"
  shows "(length args \<noteq> 2 \<longrightarrow>
      r = Some (ErrorsNew ''Expected exactly two arguments'') \<and> tr = []) \<and>
   CallParseBool s parsed \<notin> set tr \<and>
   (CallDiffKube old new short res \<in> set tr \<longrightarrow>
      \<not> short \<and> length args = 2 \<and> old = args ! 0 \<and> new = args ! 1)"
  using assms
proof (cases rule: kdiffRun_paths)
  case WrongCount
  then show ?thesis by auto
next
  case TwoArgs
  from TwoArgs(2) show ?thesis
    by (cases rule: kdiffRun_diffE) (use TwoArgs(1) in auto)
qed

theorem kdiffRun_requires_two_arguments_witness:
  "length [''old'', ''new'', ''true''] \<noteq> 2 \<and>
   kdiffRun healthy [''old'', ''new'', ''true''] =
     (Some (ErrorsNew ''Expected exactly two arguments''), []) \<and>
   CallDiffKube ''old'' ''new'' False (Inr (Some [])) \<in>
     set (snd (kdiffRun healthy [''old'', ''new''])) \<and>
   length [''old'', ''new''] = 2"
proof -
  let ?three = "kdiffRun healthy [''old'', ''new'', ''true'']"
  let ?two = "kdiffRun healthy [''old'', ''new'']"
  have three: "?three = (fst ?three, snd ?three)"
    by simp
  have two: "?two = (fst ?two, snd ?two)"
    by simp
  have called: "CallDiffKube ''old'' ''new'' False (Inr (Some [])) \<in> set (snd ?two)"
    by (simp add: run_defs demo_defs)
  from kdiffRun_requires_two_arguments [OF three]
    kdiffRun_requires_two_arguments [OF two, where old = "''old''" and new = "''new''"
      and short = False and res = "Inr (Some [])"]
    called
  show ?thesis
    by (simp add: prod_eq_iff)
qed

end
